theory Spec2Isabelle
  imports Main "HOL-Library.Word"
begin

section \<open>JavaScript values shared by the server and the browser code\<close>

text \<open>
  A JavaScript string is modelled as the list of its code units (one \<open>char\<close> stands
  for one code unit, and nothing below depends on which), so \<open>length\<close> is the
  \<^verbatim>\<open>.length\<close> that zod's \<^verbatim>\<open>min\<close> and \<^verbatim>\<open>max\<close> compare, and a string is truthy exactly
  when it is not empty.

  A thrown value is either an instance of \<^verbatim>\<open>Error\<close>, which carries a message, or any
  other value (the handlers test \<^verbatim>\<open>error instanceof Error\<close> and fall back to a fixed
  text otherwise). The other value keeps a description of itself, for instance the
  \<^verbatim>\<open>message\<close> property of a plain object that is not an \<^verbatim>\<open>Error\<close>.
\<close>

datatype thrown = ErrorObject string | OtherValue string

fun instanceof_Error :: "thrown \<Rightarrow> bool" where
  "instanceof_Error (ErrorObject m) = True"
| "instanceof_Error (OtherValue d) = False"

fun thrown_text :: "thrown \<Rightarrow> string" where
  "thrown_text (ErrorObject m) = m"
| "thrown_text (OtherValue d) = d"

text \<open>\<^verbatim>\<open>error instanceof Error ? error.message : fallback\<close>\<close>

definition reason_of :: "thrown \<Rightarrow> string \<Rightarrow> string" where
  "reason_of error fallback = (if instanceof_Error error then thrown_text error else fallback)"

definition truthy :: "string \<Rightarrow> bool" where
  "truthy s = (s \<noteq> [])"

text \<open>A \<^verbatim>\<open>File\<close>: its name and its bytes; \<^verbatim>\<open>size\<close> is the number of bytes.\<close>

record js_file =
  file_name :: string
  file_data :: "8 word list"

definition file_size :: "js_file \<Rightarrow> nat" where
  "file_size f = length (file_data f)"

text \<open>
  A \<^verbatim>\<open>FormData\<close> is the list of its entries in the order they were appended; an entry
  is a string or a file. \<^verbatim>\<open>get\<close> returns the first entry of that name, \<^verbatim>\<open>null\<close>
  (\<open>None\<close>) when there is none.
\<close>

datatype form_entry = FormString string | FormFile js_file

type_synonym form_data = "(string \<times> form_entry) list"

definition formData_get :: "form_data \<Rightarrow> string \<Rightarrow> form_entry option" where
  "formData_get fd name = map_of fd name"

text \<open>
  \<^verbatim>\<open>typeof formData.get(name) === "string" ? (formData.get(name) as string) : otherwise\<close>
\<close>

definition string_field :: "form_data \<Rightarrow> string \<Rightarrow> string option" where
  "string_field fd name =
     (case formData_get fd name of
        Some (FormString s) \<Rightarrow> Some s
      | Some (FormFile f) \<Rightarrow> None
      | None \<Rightarrow> None)"


section \<open>The publish endpoint: \<^verbatim>\<open>app/api/instagram/publish/route.ts\<close>\<close>

text \<open>
  \<^verbatim>\<open>getInstagramConfig\<close> lives in \<^verbatim>\<open>lib/env\<close> and \<^verbatim>\<open>scheduleInstagramPost\<close> in
  \<^verbatim>\<open>lib/instagram\<close>; the route only calls them, and Cloudinary, \<^verbatim>\<open>Date\<close> and zod's
  default issue text belong to libraries. They are the parameters of the handler,
  collected in \<open>server_env\<close>. Each external call settles: it returns or it throws.
\<close>

record instagram_config =
  CLOUDINARY_CLOUD_NAME :: string
  CLOUDINARY_API_KEY :: string
  CLOUDINARY_API_SECRET :: string
  CLOUDINARY_UPLOAD_FOLDER :: string

record upload_api_response =
  secure_url :: string

text \<open>The object handed to \<^verbatim>\<open>scheduleInstagramPost\<close>; \<open>None\<close> is \<^verbatim>\<open>undefined\<close> for
  \<open>arg_publishAt\<close> and \<^verbatim>\<open>null\<close> for \<open>arg_locationId\<close>.\<close>

record schedule_args =
  arg_caption :: string
  arg_imageUrl :: string
  arg_publishAt :: "string option"
  arg_locationId :: "string option"

text \<open>The calls that leave the process, in the order they are made.\<close>

datatype call =
    Upload_stream instagram_config "8 word list"
  | ScheduleInstagramPost schedule_args

text \<open>
  \<open>upload_stream\<close> gives the two arguments \<^verbatim>\<open>(error, result)\<close> that Cloudinary passes to
  the callback; \<open>toISOString\<close> is \<^verbatim>\<open>new Date(s).toISOString()\<close>, which throws a
  \<^verbatim>\<open>RangeError\<close> when \<^verbatim>\<open>s\<close> does not parse as a date; \<open>too_small_message\<close> is the text
  zod gives the issue of \<^verbatim>\<open>z.string().min(1)\<close>, which the route does not override.
\<close>

record 'r server_env =
  getInstagramConfig :: "thrown + instagram_config"
  upload_stream :: "instagram_config \<Rightarrow> 8 word list \<Rightarrow> thrown option \<times> upload_api_response option"
  toISOString :: "string \<Rightarrow> thrown + string"
  scheduleInstagramPost :: "schedule_args \<Rightarrow> thrown + 'r"
  too_small_message :: string

text \<open>\<^verbatim>\<open>rawPayload\<close> and \<^verbatim>\<open>parsed.data\<close> have the same three fields.\<close>

record payload =
  caption :: string
  publishAt :: "string option"
  locationId :: "string option"

record zod_issue =
  issue_path :: string
  issue_message :: string

text \<open>
  \<^verbatim>\<open>requestSchema.safeParse\<close>: \<^verbatim>\<open>caption: z.string().min(1)\<close>, and two optional strings,
  which a string or \<^verbatim>\<open>undefined\<close> always satisfies.
\<close>

definition requestSchema_safeParse :: "'r server_env \<Rightarrow> payload \<Rightarrow> zod_issue list + payload" where
  "requestSchema_safeParse env rawPayload =
     (if length (caption rawPayload) < 1
      then Inl [\<lparr>issue_path = ''caption'', issue_message = too_small_message env\<rparr>]
      else Inr rawPayload)"

text \<open>\<^verbatim>\<open>issues[0]?.message ?? fallback\<close>\<close>

definition first_issue_message :: "zod_issue list \<Rightarrow> string \<Rightarrow> string" where
  "first_issue_message issues fallback =
     (case issues of [] \<Rightarrow> fallback | i # rest \<Rightarrow> issue_message i)"

datatype 'r json_body =
    ErrorBody string
  | SuccessBody 'r

record 'r response =
  status :: nat
  body :: "'r json_body"

text \<open>The promise around \<^verbatim>\<open>cloudinary.uploader.upload_stream\<close> (lines 80 to 104).\<close>

definition uploadPromise ::
  "'r server_env \<Rightarrow> instagram_config \<Rightarrow> 8 word list \<Rightarrow> thrown + upload_api_response" where
  "uploadPromise env config buffer =
     (case upload_stream env config buffer of
        (Some error, result) \<Rightarrow> Inl error
      | (None, None) \<Rightarrow> Inl (ErrorObject ''Unknown Cloudinary upload error.'')
      | (None, Some result) \<Rightarrow> Inr result)"

text \<open>
  \<^verbatim>\<open>parsed.data.publishAt ? new Date(parsed.data.publishAt).toISOString() : undefined\<close>
\<close>

definition publishAtIso :: "'r server_env \<Rightarrow> string option \<Rightarrow> thrown + string option" where
  "publishAtIso env p =
     (case p of
        None \<Rightarrow> Inr None
      | Some s \<Rightarrow>
          if truthy s
          then (case toISOString env s of Inl e \<Rightarrow> Inl e | Inr isoString \<Rightarrow> Inr (Some isoString))
          else Inr None)"

text \<open>
  The body of the \<^verbatim>\<open>try\<close> (lines 79 to 123): what it returns or throws, and the calls
  it has made by then.
\<close>

definition try_body ::
  "'r server_env \<Rightarrow> instagram_config \<Rightarrow> payload \<Rightarrow> 8 word list \<Rightarrow>
     (thrown + 'r response) \<times> call list" where
  "try_body env config data buffer =
     (case uploadPromise env config buffer of
        Inl e \<Rightarrow> (Inl e, [Upload_stream config buffer])
      | Inr uploadResult \<Rightarrow>
          (case publishAtIso env (publishAt data) of
             Inl e \<Rightarrow> (Inl e, [Upload_stream config buffer])
           | Inr publishAtIso_value \<Rightarrow>
               (let args = \<lparr>arg_caption = caption data,
                            arg_imageUrl = secure_url uploadResult,
                            arg_publishAt = publishAtIso_value,
                            arg_locationId = locationId data\<rparr>;
                    calls = [Upload_stream config buffer, ScheduleInstagramPost args]
                in case scheduleInstagramPost env args of
                     Inl e \<Rightarrow> (Inl e, calls)
                   | Inr scheduleResponse \<Rightarrow>
                       (Inr \<lparr>status = 200, body = SuccessBody scheduleResponse\<rparr>, calls))))"

text \<open>
  \<^verbatim>\<open>rawPayload\<close> (lines 50 to 62): a field that is not a string (absent, or a file)
  gives the caption \<^verbatim>\<open>""\<close> and leaves the two optional fields \<^verbatim>\<open>undefined\<close>.
\<close>

definition rawPayload :: "form_data \<Rightarrow> payload" where
  "rawPayload formData =
     \<lparr>caption = (case string_field formData ''caption'' of Some s \<Rightarrow> s | None \<Rightarrow> ''''),
      publishAt = string_field formData ''publishAt'',
      locationId = string_field formData ''locationId''\<rparr>"

text \<open>The \<^verbatim>\<open>catch\<close> of lines 124 to 136.\<close>

definition catch_response :: "thrown \<Rightarrow> 'r response" where
  "catch_response error =
     \<lparr>status = 500, body = ErrorBody (reason_of error ''Upload request failed.'')\<rparr>"

text \<open>
  \<^verbatim>\<open>POST\<close>. The request is given by the form data that \<^verbatim>\<open>request.formData()\<close>
  returns (a body that is not form data makes that call throw, outside every
  \<^verbatim>\<open>try\<close>), and the buffer is the bytes of the image file. The result is the response
  and the external calls made, oldest first; \<^verbatim>\<open>cloudinary.config\<close> is local, and the
  credentials it stores travel with the \<open>Upload_stream\<close> call.
\<close>

definition POST :: "'r server_env \<Rightarrow> form_data \<Rightarrow> 'r response \<times> call list" where
  "POST env formData =
     (case getInstagramConfig env of
        Inl error \<Rightarrow>
          (\<lparr>status = 500, body = ErrorBody (reason_of error ''Missing environment config.'')\<rparr>, [])
      | Inr config \<Rightarrow>
          (case formData_get formData ''image'' of
             Some (FormFile imageFile) \<Rightarrow>
               (case requestSchema_safeParse env (rawPayload formData) of
                  Inl issues \<Rightarrow>
                    (\<lparr>status = 400,
                      body = ErrorBody (first_issue_message issues ''Invalid request payload.'')\<rparr>,
                     [])
                | Inr data \<Rightarrow>
                    (case try_body env config data (file_data imageFile) of
                       (Inr res, calls) \<Rightarrow> (res, calls)
                     | (Inl error, calls) \<Rightarrow> (catch_response error, calls)))
           | _ \<Rightarrow> (\<lparr>status = 400, body = ErrorBody ''Image file is required.''\<rparr>, [])))"

text \<open>The validation steps of a request, by name, and the schedule calls of a log.\<close>

definition config_loadable :: "'r server_env \<Rightarrow> bool" where
  "config_loadable env = (case getInstagramConfig env of Inl e \<Rightarrow> False | Inr c \<Rightarrow> True)"

definition image_is_file :: "form_data \<Rightarrow> bool" where
  "image_is_file formData =
     (case formData_get formData ''image'' of Some (FormFile f) \<Rightarrow> True | _ \<Rightarrow> False)"

definition schema_valid :: "'r server_env \<Rightarrow> form_data \<Rightarrow> bool" where
  "schema_valid env formData =
     (case requestSchema_safeParse env (rawPayload formData) of Inl i \<Rightarrow> False | Inr d \<Rightarrow> True)"

fun schedule_calls :: "call list \<Rightarrow> schedule_args list" where
  "schedule_calls [] = []"
| "schedule_calls (Upload_stream c b # cs) = schedule_calls cs"
| "schedule_calls (ScheduleInstagramPost a # cs) = a # schedule_calls cs"


section \<open>The upload form: \<^verbatim>\<open>components/InstagramUploader.tsx\<close>\<close>

definition MAX_FILE_SIZE_MB :: nat where
  "MAX_FILE_SIZE_MB = 8"

datatype publish_mode = immediate | scheduled

record form_fields =
  form_caption :: string
  form_publishAt :: "string option"
  mode :: publish_mode
  form_locationId :: "string option"

text \<open>\<^verbatim>\<open>(value) => (value && value.length > 0 ? value : undefined)\<close>\<close>

definition empty_to_undefined :: "string option \<Rightarrow> string option" where
  "empty_to_undefined v =
     (case v of
        None \<Rightarrow> None
      | Some s \<Rightarrow> if truthy s \<and> length s > 0 then Some s else None)"

text \<open>
  \<^verbatim>\<open>formSchema.safeParse\<close>. The state it is given is typed \<^verbatim>\<open>FormFields\<close>, so only the
  two checks on the caption can raise an issue; zod runs both and lists the issues in
  the order of the checks.
\<close>

definition formSchema_issues :: "form_fields \<Rightarrow> zod_issue list" where
  "formSchema_issues v =
     (if length (form_caption v) < 1
      then [\<lparr>issue_path = ''caption'', issue_message = ''Caption is required''\<rparr>] else []) @
     (if length (form_caption v) > 2200
      then [\<lparr>issue_path = ''caption'',
             issue_message = ''Instagram captions are limited to 2,200 characters.''\<rparr>]
      else [])"

definition formSchema_safeParse :: "form_fields \<Rightarrow> zod_issue list + form_fields" where
  "formSchema_safeParse v =
     (if formSchema_issues v = []
      then Inr \<lparr>form_caption = form_caption v,
                form_publishAt = empty_to_undefined (form_publishAt v),
                mode = mode v,
                form_locationId = empty_to_undefined (form_locationId v)\<rparr>
      else Inl (formSchema_issues v))"

text \<open>The state of the component: the five \<^verbatim>\<open>useState\<close> cells.\<close>

record uploader_state =
  formState :: form_fields
  file' :: "js_file option"
  isSubmitting :: bool
  message :: "string option"
  error :: "string option"

definition initial_formState :: form_fields where
  "initial_formState =
     \<lparr>form_caption = '''', form_publishAt = None, mode = immediate, form_locationId = None\<rparr>"

definition initial_state :: uploader_state where
  "initial_state =
     \<lparr>formState = initial_formState, file' = None, isSubmitting = False,
      message = None, error = None\<rparr>"

definition resetForm :: "uploader_state \<Rightarrow> uploader_state" where
  "resetForm st = st\<lparr>formState := initial_formState, file' := None\<rparr>"

text \<open>The \<^verbatim>\<open>onChange\<close> and \<^verbatim>\<open>onClick\<close> handlers of the inputs and of the two mode buttons.\<close>

definition onChange_image :: "js_file option \<Rightarrow> uploader_state \<Rightarrow> uploader_state" where
  "onChange_image selected st = st\<lparr>file' := selected\<rparr>"

definition onChange_caption :: "string \<Rightarrow> uploader_state \<Rightarrow> uploader_state" where
  "onChange_caption v st = st\<lparr>formState := (formState st)\<lparr>form_caption := v\<rparr>\<rparr>"

definition onClick_immediate :: "uploader_state \<Rightarrow> uploader_state" where
  "onClick_immediate st =
     st\<lparr>formState := (formState st)\<lparr>mode := immediate, form_publishAt := None\<rparr>\<rparr>"

definition onClick_scheduled :: "uploader_state \<Rightarrow> uploader_state" where
  "onClick_scheduled st = st\<lparr>formState := (formState st)\<lparr>mode := scheduled\<rparr>\<rparr>"

definition onChange_publishAt :: "string \<Rightarrow> uploader_state \<Rightarrow> uploader_state" where
  "onChange_publishAt v st = st\<lparr>formState := (formState st)\<lparr>form_publishAt := Some v\<rparr>\<rparr>"

definition onChange_locationId :: "string \<Rightarrow> uploader_state \<Rightarrow> uploader_state" where
  "onChange_locationId v st = st\<lparr>formState := (formState st)\<lparr>form_locationId := Some v\<rparr>\<rparr>"

text \<open>Decimal digits of a number, for \<^verbatim>\<open>${...}\<close> in a template string.\<close>

function decimal :: "nat \<Rightarrow> string" where
  "decimal n =
     (if n < 10 then [''0123456789'' ! n]
      else decimal (n div 10) @ [''0123456789'' ! (n mod 10)])"
  by pat_completeness auto
termination
  by (relation "measure id") auto

declare decimal.simps [simp del]

record http_response =
  ok :: bool
  response_status :: nat
  response_text :: string

text \<open>What \<^verbatim>\<open>handleSubmit\<close> does outside the component, in order.\<close>

datatype effect = Fetch form_data | Router_refresh

text \<open>The \<^verbatim>\<open>FormData\<close> built in lines 81 to 90.\<close>

definition outgoing_formData :: "js_file \<Rightarrow> form_fields \<Rightarrow> form_data" where
  "outgoing_formData f data =
     [(''image'', FormFile f), (''caption'', FormString (form_caption data))] @
     (case form_locationId data of
        Some l \<Rightarrow> if truthy l then [(''locationId'', FormString l)] else []
      | None \<Rightarrow> []) @
     (case form_publishAt data of
        Some p \<Rightarrow> if mode data = scheduled \<and> truthy p then [(''publishAt'', FormString p)] else []
      | None \<Rightarrow> [])"

text \<open>
  \<^verbatim>\<open>handleSubmit\<close>, with \<^verbatim>\<open>fetch("/api/instagram/publish", { method: "POST", body })\<close>
  as a parameter that returns a response or throws. The result is the state once the
  handler has finished and the effects it had. \<^verbatim>\<open>file.size / (1024 * 1024)\<close> divides by
  a power of two, which is exact in floating point, so \<^verbatim>\<open>megabytes > 8\<close> is the
  comparison of the size with \<open>8 * (1024 * 1024)\<close>.
\<close>

definition handleSubmit ::
  "(form_data \<Rightarrow> thrown + http_response) \<Rightarrow> uploader_state \<Rightarrow> uploader_state \<times> effect list" where
  "handleSubmit fetch st =
     (case file' st of
        None \<Rightarrow> (st\<lparr>error := Some ''Please select an image to upload.''\<rparr>, [])
      | Some f \<Rightarrow>
          if file_size f > MAX_FILE_SIZE_MB * (1024 * 1024)
          then (st\<lparr>error := Some (''Image must be smaller than '' @ decimal MAX_FILE_SIZE_MB
                                     @ ''MB.'')\<rparr>, [])
          else
            (case formSchema_safeParse (formState st) of
               Inl issues \<Rightarrow>
                 (st\<lparr>error := Some (first_issue_message issues ''Invalid form input.'')\<rparr>, [])
             | Inr data \<Rightarrow>
                 (let st1 = st\<lparr>isSubmitting := True, message := None, error := None\<rparr>;
                      formData = outgoing_formData f data;
                      outcome =
                        (case fetch formData of
                           Inl uploadError \<Rightarrow> Inl uploadError
                         | Inr response \<Rightarrow>
                             if \<not> ok response
                             then Inl (ErrorObject
                                    (if truthy (response_text response) then response_text response
                                     else ''Instagram upload failed with status ''
                                          @ decimal (response_status response) @ ''.''))
                             else Inr response)
                  in case outcome of
                       Inr response \<Rightarrow>
                         ((resetForm
                             (st1\<lparr>message := Some (if mode data = scheduled
                                                     then ''Post scheduled successfully!''
                                                     else ''Post published to Instagram!'')\<rparr>))
                            \<lparr>isSubmitting := False\<rparr>,
                          [Fetch formData, Router_refresh])
                     | Inl uploadError \<Rightarrow>
                         (st1\<lparr>error := Some (reason_of uploadError ''Unknown error while uploading.''),
                             isSubmitting := False\<rparr>,
                          [Fetch formData]))))"

fun fetched :: "effect list \<Rightarrow> form_data list" where
  "fetched [] = []"
| "fetched (Fetch fd # es) = fd # fetched es"
| "fetched (Router_refresh # es) = fetched es"

text \<open>
  The validation of section 4.5 of the specification, in its words: the first failing
  check, in the order file required, file size, schema, gives the message; \<open>None\<close>
  when every check passes.
\<close>

definition spec_first_failure :: "uploader_state \<Rightarrow> string option" where
  "spec_first_failure st =
     (case file' st of
        None \<Rightarrow> Some ''Please select an image to upload.''
      | Some f \<Rightarrow>
          if file_size f > 8 * 1024 * 1024 then Some ''Image must be smaller than 8MB.''
          else if form_caption (formState st) = '''' then Some ''Caption is required''
          else if length (form_caption (formState st)) > 2200
          then Some ''Instagram captions are limited to 2,200 characters.''
          else None)"


section \<open>The dashboard page \<^verbatim>\<open>Home\<close> and the list \<^verbatim>\<open>ScheduledPosts\<close>\<close>

text \<open>
  \<^verbatim>\<open>validateInstagramConfig\<close> (in \<^verbatim>\<open>lib/env\<close>) and the two fetches (in
  \<^verbatim>\<open>lib/instagram\<close>) are parameters of the page. \<^verbatim>\<open>Promise.all\<close> starts both fetches
  and rejects with the rejection that happens first; when both reject, which one is
  first is decided by the network: \<open>posts_settle_first\<close>.
\<close>

record env_status =
  ready :: bool
  missing :: "string list"

record ('p, 'q) page_env =
  validateInstagramConfig :: "thrown + env_status"
  fetchScheduledPosts :: "thrown + 'p list"
  fetchPublishingLimit :: "thrown + 'q option"
  posts_settle_first :: bool

datatype fetch_call = FetchScheduledPosts | FetchPublishingLimit

definition Promise_all :: "bool \<Rightarrow> thrown + 'a \<Rightarrow> thrown + 'b \<Rightarrow> thrown + 'a \<times> 'b" where
  "Promise_all first_settles_first a b =
     (case a of
        Inr x \<Rightarrow> (case b of Inr y \<Rightarrow> Inr (x, y) | Inl e2 \<Rightarrow> Inl e2)
      | Inl e1 \<Rightarrow> (case b of Inr y \<Rightarrow> Inl e1
                            | Inl e2 \<Rightarrow> Inl (if first_settles_first then e1 else e2)))"

text \<open>What the page renders from: the variables of lines 13 to 19 at the \<^verbatim>\<open>return\<close>.\<close>

record ('p, 'q) page =
  scheduledPosts :: "'p list"
  publishingLimit :: "'q option"
  fetchError :: "string option"
  envReady :: bool
  missingKeys :: "string list"

text \<open>
  \<^verbatim>\<open>Home\<close>: the page, or the value thrown out of it, and the fetches started.
  \<^verbatim>\<open>validateInstagramConfig\<close> is called outside the \<^verbatim>\<open>try\<close>.
\<close>

definition Home :: "('p, 'q) page_env \<Rightarrow> (thrown + ('p, 'q) page) \<times> fetch_call list" where
  "Home env =
     (case validateInstagramConfig env of
        Inl e \<Rightarrow> (Inl e, [])
      | Inr envStatus \<Rightarrow>
          (let keys = (if ready envStatus then [] else missing envStatus) in
           if ready envStatus
           then
             (case Promise_all (posts_settle_first env)
                     (fetchScheduledPosts env) (fetchPublishingLimit env) of
                Inr (posts, limit) \<Rightarrow>
                  (Inr \<lparr>scheduledPosts = posts, publishingLimit = limit, fetchError = None,
                        envReady = ready envStatus, missingKeys = keys\<rparr>,
                   [FetchScheduledPosts, FetchPublishingLimit])
              | Inl e \<Rightarrow>
                  (Inr \<lparr>scheduledPosts = [], publishingLimit = None,
                        fetchError = Some (reason_of e ''Failed to load data from Instagram.''),
                        envReady = ready envStatus, missingKeys = keys\<rparr>,
                   [FetchScheduledPosts, FetchPublishingLimit]))
           else
             (Inr \<lparr>scheduledPosts = [], publishingLimit = None, fetchError = None,
                   envReady = ready envStatus, missingKeys = keys\<rparr>,
              [])))"

text \<open>
  Modelled from the spec: the type \<^verbatim>\<open>ScheduledPost\<close> is declared in \<^verbatim>\<open>lib/instagram\<close>,
  which is not among the sources. Section 3 gives its fields; the ones the status label
  reads are kept here, each optional (\<open>None\<close> is \<^verbatim>\<open>undefined\<close> or \<^verbatim>\<open>null\<close>).
\<close>

record scheduled_post =
  post_id :: string
  status_code :: "string option"
  post_status :: "string option"
  is_published :: "bool option"

text \<open>\<^verbatim>\<open>a ?? b\<close>: the left operand unless it is \<^verbatim>\<open>null\<close> or \<^verbatim>\<open>undefined\<close>.\<close>

definition nullish :: "'a option \<Rightarrow> 'a \<Rightarrow> 'a" where
  "nullish a b = (case a of Some v \<Rightarrow> v | None \<Rightarrow> b)"

text \<open>\<^verbatim>\<open>statusLabel\<close> (lines 40 to 43 of the component).\<close>

definition statusLabel :: "scheduled_post \<Rightarrow> string" where
  "statusLabel post =
     nullish (status_code post)
       (nullish (post_status post)
          (if is_published post = Some True then ''PUBLISHED'' else ''SCHEDULED''))"

text \<open>
  The label in the words of section 4.6 of the specification: the first non-empty of
  the status code, the status, and the text derived from the published flag.
\<close>

definition spec_statusLabel :: "scheduled_post \<Rightarrow> string" where
  "spec_statusLabel post =
     (case filter (\<lambda>c. c \<noteq> None \<and> c \<noteq> Some '''') [status_code post, post_status post] of
        Some s # rest \<Rightarrow> s
      | _ \<Rightarrow> if is_published post = Some True then ''PUBLISHED'' else ''SCHEDULED'')"


section \<open>Example values\<close>

text \<open>
  A configured server whose Cloudinary upload resolves and whose schedule call returns
  a creation id. Its \<^verbatim>\<open>Date\<close> parses one \<^verbatim>\<open>datetime-local\<close> value (read as UTC) and
  finds every other string invalid, for which V8's \<^verbatim>\<open>toISOString\<close> throws
  \<^verbatim>\<open>RangeError: Invalid time value\<close>.
\<close>

definition example_config :: instagram_config where
  "example_config =
     \<lparr>CLOUDINARY_CLOUD_NAME = ''demo'', CLOUDINARY_API_KEY = ''key'',
      CLOUDINARY_API_SECRET = ''secret'', CLOUDINARY_UPLOAD_FOLDER = ''instagram-agent''\<rparr>"

definition example_file :: js_file where
  "example_file = \<lparr>file_name = ''photo.png'', file_data = [137, 80, 78, 71]\<rparr>"

definition example_env :: "string server_env" where
  "example_env =
     \<lparr>getInstagramConfig = Inr example_config,
      upload_stream = (\<lambda>config buffer.
         (None, Some \<lparr>secure_url = ''https://res.cloudinary.com/demo/photo.png''\<rparr>)),
      toISOString = (\<lambda>s. if s = ''2030-05-01T09:30'' then Inr ''2030-05-01T09:30:00.000Z''
                          else Inl (ErrorObject ''Invalid time value'')),
      scheduleInstagramPost = (\<lambda>args. Inr ''17900000000000000''),
      too_small_message = ''String must contain at least 1 character(s)''\<rparr>"

text \<open>The same server when Cloudinary hands its callback an error object, which is a
  plain object and not an \<^verbatim>\<open>Error\<close>.\<close>

definition rejecting_env :: "string server_env" where
  "rejecting_env =
     example_env\<lparr>upload_stream := (\<lambda>config buffer. (Some (OtherValue ''Invalid image file''), None))\<rparr>"

definition example_form :: form_data where
  "example_form =
     [(''image'', FormFile example_file), (''caption'', FormString ''Hello''),
      (''locationId'', FormString ''213385402''), (''publishAt'', FormString ''2030-05-01T09:30'')]"

definition bad_date_form :: form_data where
  "bad_date_form =
     [(''image'', FormFile example_file), (''caption'', FormString ''Hello''),
      (''publishAt'', FormString ''next friday'')]"

definition empty_publishAt_form :: form_data where
  "empty_publishAt_form =
     [(''image'', FormFile example_file), (''caption'', FormString ''Hello''),
      (''publishAt'', FormString '''')]"

definition no_image_form :: form_data where
  "no_image_form = [(''caption'', FormString ''Hello'')]"

definition long_caption :: string where
  "long_caption = replicate 2201 (CHR ''a'')"

definition long_caption_form :: form_data where
  "long_caption_form = [(''image'', FormFile example_file), (''caption'', FormString long_caption)]"


text \<open>
  Files of one byte more than 8 MB and of exactly 8 MB, a \<^verbatim>\<open>fetch\<close> that is answered
  with 200, and states of the form reached from the initial one by the handlers.
\<close>

definition big_file :: js_file where
  "big_file = \<lparr>file_name = ''big.png'', file_data = replicate 8388609 0\<rparr>"

definition limit_file :: js_file where
  "limit_file = \<lparr>file_name = ''limit.png'', file_data = replicate 8388608 0\<rparr>"

definition ok_fetch :: "form_data \<Rightarrow> thrown + http_response" where
  "ok_fetch formData = Inr \<lparr>ok = True, response_status = 200, response_text = ''{}''\<rparr>"

definition filled_state :: uploader_state where
  "filled_state = onChange_caption ''Hi'' (onChange_image (Some example_file) initial_state)"

definition toggled_state :: uploader_state where
  "toggled_state =
     onClick_immediate (onChange_publishAt ''2030-05-01T09:30'' (onClick_scheduled filled_state))"

definition scheduled_no_time_state :: uploader_state where
  "scheduled_no_time_state = onClick_scheduled filled_state"

definition oversized_state :: uploader_state where
  "oversized_state = onChange_image (Some big_file) initial_state"

definition limit_state :: uploader_state where
  "limit_state = onChange_caption ''Hi'' (onChange_image (Some limit_file) initial_state)"

text \<open>Posts as the provider may return them, and two page loads.\<close>

definition empty_code_post :: scheduled_post where
  "empty_code_post =
     \<lparr>post_id = ''17895695668004550'', status_code = Some '''',
      post_status = Some ''IN_PROGRESS'', is_published = Some False\<rparr>"

definition coded_post :: scheduled_post where
  "coded_post =
     \<lparr>post_id = ''17895695668004551'', status_code = Some ''FINISHED'',
      post_status = Some ''PUBLISHED'', is_published = Some True\<rparr>"

definition plain_post :: scheduled_post where
  "plain_post =
     \<lparr>post_id = ''17895695668004552'', status_code = None,
      post_status = Some ''IN_PROGRESS'', is_published = Some False\<rparr>"

definition bare_post :: scheduled_post where
  "bare_post =
     \<lparr>post_id = ''17895695668004553'', status_code = None,
      post_status = None, is_published = None\<rparr>"

definition quota_fails_env :: "(scheduled_post, nat) page_env" where
  "quota_fails_env =
     \<lparr>validateInstagramConfig = Inr \<lparr>ready = True, missing = []\<rparr>,
      fetchScheduledPosts = Inr [plain_post],
      fetchPublishingLimit = Inl (ErrorObject ''Instagram API error''),
      posts_settle_first = True\<rparr>"

definition not_ready_env :: "(scheduled_post, nat) page_env" where
  "not_ready_env =
     \<lparr>validateInstagramConfig =
        Inr \<lparr>ready = False, missing = [''INSTAGRAM_ACCESS_TOKEN'']\<rparr>,
      fetchScheduledPosts = Inr [plain_post],
      fetchPublishingLimit = Inr (Some 25),
      posts_settle_first = True\<rparr>"


section \<open>The publish endpoint\<close>

text \<open>
  C1, as stated, fails at two requests that pass the three validations. In the first
  the upload resolves and the schedule call would return, but \<^verbatim>\<open>publishAt\<close> is
  \<^verbatim>\<open>"next friday"\<close>: the conversion throws inside the \<^verbatim>\<open>try\<close>, the response is 500 and
  \<^verbatim>\<open>scheduleInstagramPost\<close> is not called at all. In the second Cloudinary rejects with
  an object that is not an \<^verbatim>\<open>Error\<close>: the body carries the fixed text
  \<^verbatim>\<open>"Upload request failed."\<close> and not the message of what was thrown.
\<close>

theorem C1_counterexample:
  "config_loadable example_env \<and> image_is_file bad_date_form \<and>
   schema_valid example_env bad_date_form \<and>
   uploadPromise example_env example_config (file_data example_file) =
     Inr \<lparr>secure_url = ''https://res.cloudinary.com/demo/photo.png''\<rparr> \<and>
   POST example_env bad_date_form =
     (\<lparr>status = 500, body = ErrorBody ''Invalid time value''\<rparr>,
      [Upload_stream example_config (file_data example_file)]) \<and>
   schedule_calls (snd (POST example_env bad_date_form)) = [] \<and>
   uploadPromise rejecting_env example_config (file_data example_file) =
     Inl (OtherValue ''Invalid image file'') \<and>
   POST rejecting_env example_form =
     (\<lparr>status = 500, body = ErrorBody ''Upload request failed.''\<rparr>,
      [Upload_stream example_config (file_data example_file)])"
  by (simp add: config_loadable_def image_is_file_def schema_valid_def example_env_def
        rejecting_env_def bad_date_form_def example_form_def formData_get_def string_field_def
        rawPayload_def requestSchema_safeParse_def uploadPromise_def POST_def try_body_def
        publishAtIso_def truthy_def catch_response_def reason_of_def)

text \<open>
  C1, amended. For a request that passes config, image and schema validation, the
  first external call is the upload of the image bytes. If the upload throws, or if it
  resolves and the conversion of a non-empty \<^verbatim>\<open>publishAt\<close> throws, the response is 500
  and \<^verbatim>\<open>scheduleInstagramPost\<close> is not called. Otherwise it is called exactly once,
  after the upload, with the URL the upload returned; the response is 200 with
  \<^verbatim>\<open>{ success: true, creation: <result> }\<close> when it returns and 500 when it throws. The
  error of a 500 body is the message of the thrown value when that is an \<^verbatim>\<open>Error\<close>
  and \<^verbatim>\<open>"Upload request failed."\<close> otherwise (\<open>reason_of\<close>).
\<close>

theorem C1_upload_then_schedule:
  assumes "getInstagramConfig env = Inr config"
    and "formData_get formData ''image'' = Some (FormFile f)"
    and "requestSchema_safeParse env (rawPayload formData) = Inr data"
  shows "(\<exists>rest. snd (POST env formData) = Upload_stream config (file_data f) # rest) \<and>
     (case uploadPromise env config (file_data f) of
        Inl e \<Rightarrow>
          POST env formData =
            (\<lparr>status = 500, body = ErrorBody (reason_of e ''Upload request failed.'')\<rparr>,
             [Upload_stream config (file_data f)])
      | Inr uploadResult \<Rightarrow>
          (case publishAtIso env (publishAt data) of
             Inl e \<Rightarrow>
               POST env formData =
                 (\<lparr>status = 500, body = ErrorBody (reason_of e ''Upload request failed.'')\<rparr>,
                  [Upload_stream config (file_data f)])
           | Inr p \<Rightarrow>
               (let args = \<lparr>arg_caption = caption data, arg_imageUrl = secure_url uploadResult,
                            arg_publishAt = p, arg_locationId = locationId data\<rparr>
                in snd (POST env formData) =
                     [Upload_stream config (file_data f), ScheduleInstagramPost args] \<and>
                   schedule_calls (snd (POST env formData)) = [args] \<and>
                   fst (POST env formData) =
                     (case scheduleInstagramPost env args of
                        Inl e \<Rightarrow>
                          \<lparr>status = 500,
                           body = ErrorBody (reason_of e ''Upload request failed.'')\<rparr>
                      | Inr scheduleResponse \<Rightarrow>
                          \<lparr>status = 200, body = SuccessBody scheduleResponse\<rparr>))))"
  using assms
  by (auto simp: POST_def try_body_def catch_response_def Let_def split: sum.splits)

text \<open>C1, amended, at the example request: upload, one schedule call, status 200.\<close>

theorem C1_witness:
  "getInstagramConfig example_env = Inr example_config \<and>
   formData_get example_form ''image'' = Some (FormFile example_file) \<and>
   requestSchema_safeParse example_env (rawPayload example_form) = Inr (rawPayload example_form) \<and>
   POST example_env example_form =
     (\<lparr>status = 200, body = SuccessBody ''17900000000000000''\<rparr>,
      [Upload_stream example_config (file_data example_file),
       ScheduleInstagramPost
         \<lparr>arg_caption = ''Hello'',
          arg_imageUrl = ''https://res.cloudinary.com/demo/photo.png'',
          arg_publishAt = Some ''2030-05-01T09:30:00.000Z'',
          arg_locationId = Some ''213385402''\<rparr>])"
proof -
  have h1: "getInstagramConfig example_env = Inr example_config"
    by (simp add: example_env_def)
  have h2: "formData_get example_form ''image'' = Some (FormFile example_file)"
    by (simp add: example_form_def formData_get_def)
  have h3: "requestSchema_safeParse example_env (rawPayload example_form) =
              Inr (rawPayload example_form)"
    by (simp add: requestSchema_safeParse_def rawPayload_def example_form_def
          string_field_def formData_get_def)
  have up: "uploadPromise example_env example_config (file_data example_file) =
              Inr \<lparr>secure_url = ''https://res.cloudinary.com/demo/photo.png''\<rparr>"
    by (simp add: uploadPromise_def example_env_def)
  have conv: "publishAtIso example_env (publishAt (rawPayload example_form)) =
               Inr (Some ''2030-05-01T09:30:00.000Z'')"
    by (simp add: publishAtIso_def truthy_def rawPayload_def example_form_def
          string_field_def formData_get_def example_env_def)
  have pl: "caption (rawPayload example_form) = ''Hello'' \<and>
            locationId (rawPayload example_form) = Some ''213385402''"
    by (simp add: rawPayload_def example_form_def string_field_def formData_get_def)
  have sch: "\<And>a. scheduleInstagramPost example_env a = Inr ''17900000000000000''"
    by (simp add: example_env_def)
  show ?thesis
    using C1_upload_then_schedule [OF h1 h2 h3] h1 h2 h3
    by (simp add: up conv pl sch prod_eq_iff Let_def)
qed

text \<open>
  C2. With loadable config, a request whose \<^verbatim>\<open>image\<close> field is absent or is a string
  instead of a file is answered with status 400 and the body
  \<^verbatim>\<open>{ error: "Image file is required." }\<close>, and no external call is made: neither the
  upload nor \<^verbatim>\<open>scheduleInstagramPost\<close>.
\<close>

theorem C2_image_required:
  assumes "config_loadable env"
    and "\<not> image_is_file formData"
  shows "POST env formData =
           (\<lparr>status = 400, body = ErrorBody ''Image file is required.''\<rparr>, [])"
  using assms
  by (auto simp: POST_def config_loadable_def image_is_file_def
           split: sum.splits option.splits form_entry.splits)

text \<open>C2 at a request that has a caption and no \<^verbatim>\<open>image\<close> field.\<close>

theorem C2_witness:
  "config_loadable example_env \<and> \<not> image_is_file no_image_form \<and>
   POST example_env no_image_form =
     (\<lparr>status = 400, body = ErrorBody ''Image file is required.''\<rparr>, [])"
proof -
  have h1: "config_loadable example_env"
    by (simp add: config_loadable_def example_env_def)
  have h2: "\<not> image_is_file no_image_form"
    by (simp add: image_is_file_def no_image_form_def formData_get_def)
  show ?thesis using h1 h2 C2_image_required [OF h1 h2] by simp
qed

text \<open>
  C3, as stated, fails when the \<^verbatim>\<open>publishAt\<close> field is present and is the empty
  string: \<^verbatim>\<open>scheduleInstagramPost\<close> receives \<^verbatim>\<open>undefined\<close>, not the value of the field.
\<close>

theorem C3_counterexample:
  "string_field empty_publishAt_form ''publishAt'' = Some '''' \<and>
   schedule_calls (snd (POST example_env empty_publishAt_form)) =
     [\<lparr>arg_caption = ''Hello'', arg_imageUrl = ''https://res.cloudinary.com/demo/photo.png'',
       arg_publishAt = None, arg_locationId = None\<rparr>]"
  by (simp add: example_env_def empty_publishAt_form_def formData_get_def string_field_def
        rawPayload_def requestSchema_safeParse_def uploadPromise_def POST_def try_body_def
        publishAtIso_def truthy_def)

text \<open>
  C3, amended. For a validated request whose upload resolves: when \<^verbatim>\<open>publishAt\<close> is a
  non-empty string \<open>v\<close> and \<^verbatim>\<open>new Date(v).toISOString()\<close> returns \<open>t\<close>,
  \<^verbatim>\<open>scheduleInstagramPost\<close> is called once and receives \<open>t\<close> as \<^verbatim>\<open>publishAt\<close>; when the
  field is absent, is not a string, or is the empty string, it is called once and
  receives no publish time (\<^verbatim>\<open>undefined\<close>); when the conversion throws it is not called.
  In every call \<^verbatim>\<open>locationId\<close> is the string of the field when there is one and
  \<^verbatim>\<open>null\<close> otherwise.
\<close>

theorem C3_publishAt_conversion:
  assumes "getInstagramConfig env = Inr config"
    and "formData_get formData ''image'' = Some (FormFile f)"
    and "schema_valid env formData"
    and "uploadPromise env config (file_data f) = Inr uploadResult"
  shows "schedule_calls (snd (POST env formData)) =
     (let args = (\<lambda>p. \<lparr>arg_caption = caption (rawPayload formData),
                         arg_imageUrl = secure_url uploadResult,
                         arg_publishAt = p,
                         arg_locationId = string_field formData ''locationId''\<rparr>)
      in case string_field formData ''publishAt'' of
           None \<Rightarrow> [args None]
         | Some v \<Rightarrow>
             if v = '''' then [args None]
             else (case toISOString env v of
                     Inr t \<Rightarrow> [args (Some t)]
                   | Inl e \<Rightarrow> []))"
  using assms
  by (auto simp: POST_def try_body_def schema_valid_def publishAtIso_def truthy_def rawPayload_def
        requestSchema_safeParse_def Let_def split: sum.splits option.splits if_splits)

text \<open>C3, amended, at the example request, whose \<^verbatim>\<open>publishAt\<close> the example \<^verbatim>\<open>Date\<close> parses.\<close>

theorem C3_witness:
  "getInstagramConfig example_env = Inr example_config \<and>
   formData_get example_form ''image'' = Some (FormFile example_file) \<and>
   schema_valid example_env example_form \<and>
   uploadPromise example_env example_config (file_data example_file) =
     Inr \<lparr>secure_url = ''https://res.cloudinary.com/demo/photo.png''\<rparr> \<and>
   schedule_calls (snd (POST example_env example_form)) =
     [\<lparr>arg_caption = ''Hello'',
       arg_imageUrl = ''https://res.cloudinary.com/demo/photo.png'',
       arg_publishAt = Some ''2030-05-01T09:30:00.000Z'',
       arg_locationId = Some ''213385402''\<rparr>]"
proof -
  have h1: "getInstagramConfig example_env = Inr example_config"
    by (simp add: example_env_def)
  have h2: "formData_get example_form ''image'' = Some (FormFile example_file)"
    by (simp add: example_form_def formData_get_def)
  have h3: "schema_valid example_env example_form"
    by (simp add: schema_valid_def requestSchema_safeParse_def rawPayload_def example_form_def
          string_field_def formData_get_def)
  have h4: "uploadPromise example_env example_config (file_data example_file) =
              Inr \<lparr>secure_url = ''https://res.cloudinary.com/demo/photo.png''\<rparr>"
    by (simp add: uploadPromise_def example_env_def)
  have fields: "string_field example_form ''publishAt'' = Some ''2030-05-01T09:30'' \<and>
                string_field example_form ''locationId'' = Some ''213385402'' \<and>
                caption (rawPayload example_form) = ''Hello''"
    by (simp add: rawPayload_def example_form_def string_field_def formData_get_def)
  have conv: "toISOString example_env ''2030-05-01T09:30'' = Inr ''2030-05-01T09:30:00.000Z''"
    by (simp add: example_env_def)
  show ?thesis
    using C3_publishAt_conversion [OF h1 h2 h3 h4] h1 h2 h3 h4
    by (simp add: fields conv)
qed

text \<open>
  C4. The claim wants a caption longer than 2200 characters answered with 400 and never
  with 200. The server schema only has \<^verbatim>\<open>min(1)\<close>; the limit of 2200 is in the form's
  schema alone. A request with a file and a caption of 2201 characters, on a server
  whose upload and schedule call succeed, is uploaded, scheduled and answered with 200.
\<close>

theorem C4_long_caption_accepted:
  "length long_caption = 2201 \<and>
   POST example_env long_caption_form =
     (\<lparr>status = 200, body = SuccessBody ''17900000000000000''\<rparr>,
      [Upload_stream example_config (file_data example_file),
       ScheduleInstagramPost
         \<lparr>arg_caption = long_caption,
          arg_imageUrl = ''https://res.cloudinary.com/demo/photo.png'',
          arg_publishAt = None, arg_locationId = None\<rparr>])"
proof -
  have len: "length long_caption = 2201" by (simp add: long_caption_def)
  then have "\<not> length long_caption < 1" by simp
  then show ?thesis using len
    by (simp add: example_env_def long_caption_form_def formData_get_def string_field_def
        rawPayload_def requestSchema_safeParse_def uploadPromise_def POST_def try_body_def
        publishAtIso_def)
qed

text \<open>
  C10. For a request with loadable config, a file image and a non-empty caption whose
  \<^verbatim>\<open>publishAt\<close> field is present and is the empty string: the schema validation
  succeeds and keeps the empty string; the conversion yields \<^verbatim>\<open>undefined\<close> and raises
  nothing, whatever \<^verbatim>\<open>Date\<close> would do with the empty string; and once the upload has
  resolved, \<^verbatim>\<open>scheduleInstagramPost\<close> is called with \<^verbatim>\<open>publishAt\<close> undefined.
\<close>

theorem C10_empty_publishAt:
  assumes "getInstagramConfig env = Inr config"
    and "formData_get formData ''image'' = Some (FormFile f)"
    and "string_field formData ''caption'' = Some c" and "c \<noteq> ''''"
    and "string_field formData ''publishAt'' = Some ''''"
  shows "requestSchema_safeParse env (rawPayload formData) = Inr (rawPayload formData) \<and>
     publishAt (rawPayload formData) = Some '''' \<and>
     publishAtIso env (publishAt (rawPayload formData)) = Inr None \<and>
     (case uploadPromise env config (file_data f) of
        Inl e \<Rightarrow> snd (POST env formData) = [Upload_stream config (file_data f)]
      | Inr uploadResult \<Rightarrow>
          snd (POST env formData) =
            [Upload_stream config (file_data f),
             ScheduleInstagramPost
               \<lparr>arg_caption = c, arg_imageUrl = secure_url uploadResult,
                arg_publishAt = None,
                arg_locationId = string_field formData ''locationId''\<rparr>])"
  using assms
  by (auto simp: POST_def try_body_def publishAtIso_def truthy_def rawPayload_def
        requestSchema_safeParse_def Let_def split: sum.splits)

text \<open>C10 at a request with the caption \<^verbatim>\<open>"Hello"\<close> and an empty \<^verbatim>\<open>publishAt\<close> field.\<close>

theorem C10_witness:
  "getInstagramConfig example_env = Inr example_config \<and>
   formData_get empty_publishAt_form ''image'' = Some (FormFile example_file) \<and>
   string_field empty_publishAt_form ''caption'' = Some ''Hello'' \<and>
   string_field empty_publishAt_form ''publishAt'' = Some '''' \<and>
   snd (POST example_env empty_publishAt_form) =
     [Upload_stream example_config (file_data example_file),
      ScheduleInstagramPost
        \<lparr>arg_caption = ''Hello'',
         arg_imageUrl = ''https://res.cloudinary.com/demo/photo.png'',
         arg_publishAt = None, arg_locationId = None\<rparr>]"
proof -
  have h1: "getInstagramConfig example_env = Inr example_config"
    by (simp add: example_env_def)
  have h2: "formData_get empty_publishAt_form ''image'' = Some (FormFile example_file)"
    by (simp add: empty_publishAt_form_def formData_get_def)
  have h3: "string_field empty_publishAt_form ''caption'' = Some ''Hello''"
    by (simp add: empty_publishAt_form_def string_field_def formData_get_def)
  have h4: "''Hello'' \<noteq> ''''" by simp
  have h5: "string_field empty_publishAt_form ''publishAt'' = Some ''''"
    by (simp add: empty_publishAt_form_def string_field_def formData_get_def)
  have up: "uploadPromise example_env example_config (file_data example_file) =
              Inr \<lparr>secure_url = ''https://res.cloudinary.com/demo/photo.png''\<rparr>"
    by (simp add: uploadPromise_def example_env_def)
  have loc: "string_field empty_publishAt_form ''locationId'' = None"
    by (simp add: empty_publishAt_form_def string_field_def formData_get_def)
  show ?thesis
    using C10_empty_publishAt [OF h1 h2 h3 h4 h5] h1 h2 h3 h5
    by (simp add: up loc)
qed

section \<open>The upload form\<close>

subsection \<open>The branches of \<^verbatim>\<open>handleSubmit\<close> and of the form schema\<close>

lemma decimal_8: "decimal 8 = ''8''"
  by (simp add: decimal.simps)

lemma big_file_size: "file_size big_file = 8388609"
  by (simp add: file_size_def big_file_def)

lemma limit_file_size: "file_size limit_file = 8388608"
  by (simp add: file_size_def limit_file_def)

lemma handleSubmit_no_file:
  assumes "file' st = None"
  shows "handleSubmit fetch st = (st\<lparr>error := Some ''Please select an image to upload.''\<rparr>, [])"
  using assms by (simp add: handleSubmit_def)

lemma handleSubmit_too_large:
  assumes "file' st = Some f" and "file_size f > 8 * 1024 * 1024"
  shows "handleSubmit fetch st = (st\<lparr>error := Some ''Image must be smaller than 8MB.''\<rparr>, [])"
  using assms by (simp add: handleSubmit_def MAX_FILE_SIZE_MB_def decimal_8)

lemma handleSubmit_schema_failure:
  assumes "file' st = Some f" and "\<not> file_size f > 8 * 1024 * 1024"
    and "formSchema_safeParse (formState st) = Inl issues"
  shows "handleSubmit fetch st =
           (st\<lparr>error := Some (first_issue_message issues ''Invalid form input.'')\<rparr>, [])"
  using assms by (simp add: handleSubmit_def MAX_FILE_SIZE_MB_def)

lemma handleSubmit_sends:
  assumes "file' st = Some f" and "\<not> file_size f > 8 * 1024 * 1024"
    and "formSchema_safeParse (formState st) = Inr data"
  shows "\<exists>rest. snd (handleSubmit fetch st) = Fetch (outgoing_formData f data) # rest"
  using assms by (simp add: handleSubmit_def MAX_FILE_SIZE_MB_def Let_def split: sum.splits)

lemma fetched_handleSubmit:
  "fetched (snd (handleSubmit fetch st)) =
     (case file' st of
        None \<Rightarrow> []
      | Some f \<Rightarrow>
          if file_size f > 8 * 1024 * 1024 then []
          else (case formSchema_safeParse (formState st) of
                  Inl issues \<Rightarrow> []
                | Inr data \<Rightarrow> [outgoing_formData f data]))"
  by (simp add: handleSubmit_def MAX_FILE_SIZE_MB_def Let_def split: option.splits sum.splits)

lemma formSchema_empty_caption:
  assumes "form_caption v = ''''"
  shows "formSchema_safeParse v =
           Inl [\<lparr>issue_path = ''caption'', issue_message = ''Caption is required''\<rparr>]"
  using assms by (simp add: formSchema_safeParse_def formSchema_issues_def)

lemma formSchema_long_caption:
  assumes "length (form_caption v) > 2200"
  shows "formSchema_safeParse v =
           Inl [\<lparr>issue_path = ''caption'',
                 issue_message = ''Instagram captions are limited to 2,200 characters.''\<rparr>]"
  using assms by (auto simp: formSchema_safeParse_def formSchema_issues_def)

lemma formSchema_valid_caption:
  assumes "form_caption v \<noteq> ''''" and "\<not> length (form_caption v) > 2200"
  shows "formSchema_safeParse v =
           Inr \<lparr>form_caption = form_caption v,
                form_publishAt = empty_to_undefined (form_publishAt v),
                mode = mode v,
                form_locationId = empty_to_undefined (form_locationId v)\<rparr>"
  using assms by (simp add: formSchema_safeParse_def formSchema_issues_def)

lemma formSchema_keeps_mode:
  assumes "formSchema_safeParse v = Inr data"
  shows "mode data = mode v"
  using assms by (auto simp: formSchema_safeParse_def split: if_splits)

lemma outgoing_keys_immediate:
  assumes "mode data = immediate"
  shows "''publishAt'' \<notin> fst ` set (outgoing_formData f data)"
  using assms by (auto simp: outgoing_formData_def split: option.splits)

lemma outgoing_keys_no_publishAt:
  assumes "form_publishAt data = None"
  shows "''publishAt'' \<notin> fst ` set (outgoing_formData f data)"
  using assms by (auto simp: outgoing_formData_def split: option.splits)

lemma immediate_requests:
  assumes "mode (formState s) = immediate"
    and "req \<in> set (fetched (snd (handleSubmit fetch s)))"
  shows "''publishAt'' \<notin> fst ` set req"
proof (cases "formSchema_safeParse (formState s)")
  case (Inl issues)
  with assms(2) show ?thesis
    by (simp add: fetched_handleSubmit split: option.splits if_splits)
next
  case (Inr data)
  then have "mode data = immediate"
    using assms(1) formSchema_keeps_mode by simp
  then have "''publishAt'' \<notin> fst ` set (outgoing_formData f data)" for f
    by (rule outgoing_keys_immediate)
  with assms(2) Inr show ?thesis
    by (auto simp: fetched_handleSubmit split: option.splits if_splits)
qed

lemma filled_state_eq:
  "filled_state =
     \<lparr>formState = \<lparr>form_caption = ''Hi'', form_publishAt = None, mode = immediate,
                    form_locationId = None\<rparr>,
      file' = Some example_file, isSubmitting = False, message = None, error = None\<rparr>"
  by (simp add: filled_state_def onChange_caption_def onChange_image_def initial_state_def
        initial_formState_def)

lemma example_file_size: "\<not> file_size example_file > 8 * 1024 * 1024"
  by (simp add: file_size_def example_file_def)

subsection \<open>The claims about the form\<close>

text \<open>
  C5. A submission is checked in the order file required, file size, schema, and stops
  at the first check that fails (\<open>spec_first_failure\<close>, the validation in the words of
  the specification): then the only change of state is that \<^verbatim>\<open>error\<close> holds the
  message of that check, and nothing is sent. A file of more than 8 MB gives the size
  message whatever the caption is. When no check fails the request is sent, so a file
  of exactly 8 MB is not rejected.
\<close>

theorem C5_validation_order:
  "(case spec_first_failure st of
      Some msg \<Rightarrow> handleSubmit fetch st = (st\<lparr>error := Some msg\<rparr>, [])
    | None \<Rightarrow> (\<exists>f data rest.
         file' st = Some f \<and> formSchema_safeParse (formState st) = Inr data \<and>
         snd (handleSubmit fetch st) = Fetch (outgoing_formData f data) # rest))"
proof (cases "file' st")
  case None
  then show ?thesis
    by (simp add: spec_first_failure_def handleSubmit_no_file)
next
  case (Some f)
  show ?thesis
  proof (cases "file_size f > 8 * 1024 * 1024")
    case True
    with Some show ?thesis
      by (simp add: spec_first_failure_def handleSubmit_too_large)
  next
    case size_ok: False
    show ?thesis
    proof (cases "form_caption (formState st) = ''''")
      case True
      from handleSubmit_schema_failure [OF Some size_ok formSchema_empty_caption [OF True]]
      show ?thesis using Some size_ok True
        by (simp add: spec_first_failure_def first_issue_message_def)
    next
      case nonempty: False
      show ?thesis
      proof (cases "length (form_caption (formState st)) > 2200")
        case True
        from handleSubmit_schema_failure [OF Some size_ok formSchema_long_caption [OF True]]
        show ?thesis using Some size_ok nonempty True
          by (simp add: spec_first_failure_def first_issue_message_def)
      next
        case False
        from handleSubmit_sends [OF Some size_ok formSchema_valid_caption [OF nonempty False]]
        show ?thesis using Some size_ok nonempty False
          by (simp add: spec_first_failure_def formSchema_valid_caption)
      qed
    qed
  qed
qed

text \<open>
  C5 at two states: a file of 8 MB and one byte with an empty caption, where the size
  message wins and nothing is sent, and a file of exactly 8 MB with a caption, which is
  sent.
\<close>

theorem C5_witness:
  "spec_first_failure oversized_state = Some ''Image must be smaller than 8MB.'' \<and>
   form_caption (formState oversized_state) = '''' \<and>
   handleSubmit ok_fetch oversized_state =
     (oversized_state\<lparr>error := Some ''Image must be smaller than 8MB.''\<rparr>, []) \<and>
   spec_first_failure limit_state = None \<and>
   fetched (snd (handleSubmit ok_fetch limit_state)) =
     [[(''image'', FormFile limit_file), (''caption'', FormString ''Hi'')]]"
proof -
  have sel: "file' oversized_state = Some big_file"
    by (simp add: oversized_state_def onChange_image_def)
  have first: "spec_first_failure oversized_state = Some ''Image must be smaller than 8MB.''"
    by (simp add: spec_first_failure_def sel big_file_size)
  have cap: "form_caption (formState oversized_state) = ''''"
    by (simp add: oversized_state_def onChange_image_def initial_state_def initial_formState_def)
  have lim: "limit_state =
      \<lparr>formState = \<lparr>form_caption = ''Hi'', form_publishAt = None, mode = immediate,
                     form_locationId = None\<rparr>,
       file' = Some limit_file, isSubmitting = False, message = None, error = None\<rparr>"
    by (simp add: limit_state_def onChange_caption_def onChange_image_def initial_state_def
          initial_formState_def)
  have none: "spec_first_failure limit_state = None"
    by (simp add: spec_first_failure_def lim limit_file_size)
  have parse: "formSchema_safeParse (formState limit_state) =
      Inr \<lparr>form_caption = ''Hi'', form_publishAt = None, mode = immediate,
           form_locationId = None\<rparr>"
    by (simp add: lim formSchema_safeParse_def formSchema_issues_def empty_to_undefined_def)
  have sent: "fetched (snd (handleSubmit ok_fetch limit_state)) =
     [[(''image'', FormFile limit_file), (''caption'', FormString ''Hi'')]]"
    using parse
    by (simp add: fetched_handleSubmit lim limit_file_size outgoing_formData_def)
  show ?thesis
    using C5_validation_order [of oversized_state ok_fetch]
      C5_validation_order [of limit_state ok_fetch] first cap none sent
    by simp
qed

text \<open>
  C6. A submission made in mode \<^verbatim>\<open>immediate\<close> sends no request with a \<^verbatim>\<open>publishAt\<close>
  field. The button "Publish Now" sets the mode to \<^verbatim>\<open>immediate\<close> and clears the stored
  \<^verbatim>\<open>publishAt\<close>; in particular, after switching to scheduled mode, entering a time
  \<open>v\<close> and switching back, the submission has no \<^verbatim>\<open>publishAt\<close> field.
\<close>

theorem C6_immediate_no_publishAt:
  "(mode (formState st) = immediate \<longrightarrow>
      (\<forall>req \<in> set (fetched (snd (handleSubmit fetch st))). ''publishAt'' \<notin> fst ` set req)) \<and>
   mode (formState (onClick_immediate st)) = immediate \<and>
   form_publishAt (formState (onClick_immediate st)) = None \<and>
   (\<forall>req \<in> set (fetched (snd (handleSubmit fetch
        (onClick_immediate (onChange_publishAt v (onClick_scheduled st)))))).
      ''publishAt'' \<notin> fst ` set req)"
proof -
  have click: "mode (formState (onClick_immediate s)) = immediate \<and>
               form_publishAt (formState (onClick_immediate s)) = None" for s
    by (simp add: onClick_immediate_def)
  show ?thesis
    using immediate_requests click by blast
qed

text \<open>
  C6 at the state reached by choosing a file, typing a caption, clicking "Schedule",
  entering a time and clicking "Publish Now": one request, with the fields \<^verbatim>\<open>image\<close>
  and \<^verbatim>\<open>caption\<close> only.
\<close>

theorem C6_witness:
  "mode (formState toggled_state) = immediate \<and>
   fetched (snd (handleSubmit ok_fetch toggled_state)) =
     [[(''image'', FormFile example_file), (''caption'', FormString ''Hi'')]] \<and>
   ''publishAt'' \<notin> fst ` set [(''image'', FormFile example_file), (''caption'', FormString ''Hi'')]"
proof -
  have st: "toggled_state = filled_state"
    by (simp add: toggled_state_def filled_state_eq onClick_immediate_def
          onChange_publishAt_def onClick_scheduled_def)
  have m: "mode (formState toggled_state) = immediate"
    by (simp add: st filled_state_eq)
  have sent: "fetched (snd (handleSubmit ok_fetch toggled_state)) =
     [[(''image'', FormFile example_file), (''caption'', FormString ''Hi'')]]"
    using example_file_size
    by (simp add: fetched_handleSubmit st filled_state_eq
          formSchema_safeParse_def formSchema_issues_def outgoing_formData_def
          empty_to_undefined_def)
  show ?thesis
    using C6_immediate_no_publishAt [of toggled_state ok_fetch] m sent by simp
qed

text \<open>
  C7. For a submission in mode \<^verbatim>\<open>scheduled\<close> with \<^verbatim>\<open>publishAt\<close> unset (never entered,
  or cleared to the empty string) that is otherwise valid (a file of at most 8 MB is
  selected and the caption has 1 to 2200 characters): the schema validation succeeds
  with mode \<^verbatim>\<open>scheduled\<close> and no \<^verbatim>\<open>publishAt\<close>, and the request is sent, without a
  \<^verbatim>\<open>publishAt\<close> field. The form does not ask for the publish time.
\<close>

theorem C7_scheduled_without_publishAt:
  assumes "mode (formState st) = scheduled"
    and "form_publishAt (formState st) = None \<or> form_publishAt (formState st) = Some ''''"
    and "file' st = Some f" and "\<not> file_size f > 8 * 1024 * 1024"
    and "form_caption (formState st) \<noteq> ''''"
    and "\<not> length (form_caption (formState st)) > 2200"
  shows "\<exists>data rest.
     formSchema_safeParse (formState st) = Inr data \<and>
     mode data = scheduled \<and> form_publishAt data = None \<and>
     snd (handleSubmit fetch st) = Fetch (outgoing_formData f data) # rest \<and>
     ''publishAt'' \<notin> fst ` set (outgoing_formData f data)"
proof -
  let ?data = "\<lparr>form_caption = form_caption (formState st),
                form_publishAt = empty_to_undefined (form_publishAt (formState st)),
                mode = mode (formState st),
                form_locationId = empty_to_undefined (form_locationId (formState st))\<rparr>"
  have parse: "formSchema_safeParse (formState st) = Inr ?data"
    using assms(5,6) by (rule formSchema_valid_caption)
  have unset: "form_publishAt ?data = None"
    using assms(2) by (auto simp: empty_to_undefined_def truthy_def)
  have sched: "mode ?data = scheduled"
    using assms(1) by simp
  obtain rest where "snd (handleSubmit fetch st) = Fetch (outgoing_formData f ?data) # rest"
    using handleSubmit_sends [OF assms(3,4) parse] by blast
  with parse unset sched outgoing_keys_no_publishAt [OF unset] show ?thesis
    by blast
qed

text \<open>
  C7 at the state reached by choosing a file, typing a caption and clicking "Schedule":
  the request goes out with the fields \<^verbatim>\<open>image\<close> and \<^verbatim>\<open>caption\<close>.
\<close>

theorem C7_witness:
  "mode (formState scheduled_no_time_state) = scheduled \<and>
   form_publishAt (formState scheduled_no_time_state) = None \<and>
   file' scheduled_no_time_state = Some example_file \<and>
   \<not> file_size example_file > 8 * 1024 * 1024 \<and>
   form_caption (formState scheduled_no_time_state) = ''Hi'' \<and>
   fetched (snd (handleSubmit ok_fetch scheduled_no_time_state)) =
     [[(''image'', FormFile example_file), (''caption'', FormString ''Hi'')]]"
proof -
  have st: "scheduled_no_time_state =
      \<lparr>formState = \<lparr>form_caption = ''Hi'', form_publishAt = None, mode = scheduled,
                     form_locationId = None\<rparr>,
       file' = Some example_file, isSubmitting = False, message = None, error = None\<rparr>"
    by (simp add: scheduled_no_time_state_def filled_state_eq onClick_scheduled_def)
  have h1: "mode (formState scheduled_no_time_state) = scheduled" by (simp add: st)
  have h2: "form_publishAt (formState scheduled_no_time_state) = None \<or>
            form_publishAt (formState scheduled_no_time_state) = Some ''''" by (simp add: st)
  have h3: "file' scheduled_no_time_state = Some example_file" by (simp add: st)
  note h4 = example_file_size
  have h5: "form_caption (formState scheduled_no_time_state) \<noteq> ''''" by (simp add: st)
  have h6: "\<not> length (form_caption (formState scheduled_no_time_state)) > 2200"
    by (simp add: st)
  obtain data rest where
    parse: "formSchema_safeParse (formState scheduled_no_time_state) = Inr data" and
    sent: "snd (handleSubmit ok_fetch scheduled_no_time_state) =
             Fetch (outgoing_formData example_file data) # rest"
    using C7_scheduled_without_publishAt [OF h1 h2 h3 h4 h5 h6, of ok_fetch] by blast
  have data: "data = \<lparr>form_caption = ''Hi'', form_publishAt = None, mode = scheduled,
                      form_locationId = None\<rparr>"
    using parse
    by (simp add: st formSchema_safeParse_def formSchema_issues_def empty_to_undefined_def)
  have "fetched (snd (handleSubmit ok_fetch scheduled_no_time_state)) =
          [outgoing_formData example_file data]"
    using h4 by (simp add: fetched_handleSubmit h3 parse)
  then show ?thesis
    using h1 h3 h4 by (simp add: st data outgoing_formData_def)
qed


section \<open>The dashboard page and the list of scheduled posts\<close>

text \<open>
  C8. On a page load whose config is ready, if the scheduled-posts fetch or the quota
  fetch throws, both fetches have been started, the page is returned (nothing is thrown
  out of \<^verbatim>\<open>Home\<close>) with an empty list of posts, no quota, and one error string: the
  message of one of the thrown values, or the fixed text when that value is not an
  \<^verbatim>\<open>Error\<close>. This holds also when only one of the two fetches failed. When the config
  is not ready, no fetch is started and the page has no posts, no quota and no error.
\<close>

theorem C8_fetch_failure:
  assumes "validateInstagramConfig env = Inr envStatus"
  shows "(ready envStatus \<and> (isl (fetchScheduledPosts env) \<or> isl (fetchPublishingLimit env)) \<longrightarrow>
       snd (Home env) = [FetchScheduledPosts, FetchPublishingLimit] \<and>
       (\<exists>e. (fetchScheduledPosts env = Inl e \<or> fetchPublishingLimit env = Inl e) \<and>
            fst (Home env) =
              Inr \<lparr>scheduledPosts = [], publishingLimit = None,
                   fetchError = Some (reason_of e ''Failed to load data from Instagram.''),
                   envReady = True, missingKeys = []\<rparr>)) \<and>
     (\<not> ready envStatus \<longrightarrow>
       Home env =
         (Inr \<lparr>scheduledPosts = [], publishingLimit = None, fetchError = None,
               envReady = False, missingKeys = missing envStatus\<rparr>, []))"
  using assms
  by (auto simp: Home_def Promise_all_def isl_def split: sum.splits)

text \<open>
  C8 at a load where the posts arrive and the quota fetch throws (the posts are
  discarded), and at a load with a missing credential (no fetch).
\<close>

theorem C8_witness:
  "validateInstagramConfig quota_fails_env = Inr \<lparr>ready = True, missing = []\<rparr> \<and>
   fetchScheduledPosts quota_fails_env = Inr [plain_post] \<and>
   isl (fetchPublishingLimit quota_fails_env) \<and>
   Home quota_fails_env =
     (Inr \<lparr>scheduledPosts = [], publishingLimit = None,
           fetchError = Some ''Instagram API error'', envReady = True, missingKeys = []\<rparr>,
      [FetchScheduledPosts, FetchPublishingLimit]) \<and>
   validateInstagramConfig not_ready_env =
     Inr \<lparr>ready = False, missing = [''INSTAGRAM_ACCESS_TOKEN'']\<rparr> \<and>
   Home not_ready_env =
     (Inr \<lparr>scheduledPosts = [], publishingLimit = None, fetchError = None,
           envReady = False, missingKeys = [''INSTAGRAM_ACCESS_TOKEN'']\<rparr>, [])"
proof -
  have c1: "validateInstagramConfig quota_fails_env = Inr \<lparr>ready = True, missing = []\<rparr>"
    by (simp add: quota_fails_env_def)
  have p1: "fetchScheduledPosts quota_fails_env = Inr [plain_post]"
    by (simp add: quota_fails_env_def)
  have q1: "fetchPublishingLimit quota_fails_env = Inl (ErrorObject ''Instagram API error'')"
    by (simp add: quota_fails_env_def)
  have c2: "validateInstagramConfig not_ready_env =
              Inr \<lparr>ready = False, missing = [''INSTAGRAM_ACCESS_TOKEN'']\<rparr>"
    by (simp add: not_ready_env_def)
  show ?thesis
    using C8_fetch_failure [OF c1] C8_fetch_failure [OF c2] c1 c2
    by (simp add: p1 q1 reason_of_def prod_eq_iff)
qed

text \<open>
  C9, as stated, fails at a post whose \<^verbatim>\<open>status_code\<close> is the empty string and whose
  \<^verbatim>\<open>status\<close> is \<^verbatim>\<open>"IN_PROGRESS"\<close>: the label is the empty string, where the first
  non-empty value is \<^verbatim>\<open>"IN_PROGRESS"\<close>.
\<close>

theorem C9_counterexample:
  "status_code empty_code_post = Some '''' \<and>
   post_status empty_code_post = Some ''IN_PROGRESS'' \<and>
   statusLabel empty_code_post = '''' \<and>
   spec_statusLabel empty_code_post = ''IN_PROGRESS''"
  by (simp add: empty_code_post_def statusLabel_def spec_statusLabel_def nullish_def)

text \<open>
  C9, amended. The label is the first value that is not \<^verbatim>\<open>null\<close> or \<^verbatim>\<open>undefined\<close>
  among the post's \<^verbatim>\<open>status_code\<close>, its \<^verbatim>\<open>status\<close>, and the text derived from
  \<^verbatim>\<open>is_published\<close> (\<^verbatim>\<open>"PUBLISHED"\<close> if the flag is set, otherwise \<^verbatim>\<open>"SCHEDULED"\<close>). An
  empty string is such a value and is displayed as it is. For a post neither of whose
  two fields is the empty string, the label is the first non-empty value.
\<close>

theorem C9_first_defined:
  "(\<forall>s. status_code post = Some s \<longrightarrow> statusLabel post = s) \<and>
   (\<forall>s. status_code post = None \<and> post_status post = Some s \<longrightarrow> statusLabel post = s) \<and>
   (status_code post = None \<and> post_status post = None \<longrightarrow>
      statusLabel post = (if is_published post = Some True then ''PUBLISHED'' else ''SCHEDULED'')) \<and>
   (status_code post \<noteq> Some '''' \<and> post_status post \<noteq> Some '''' \<longrightarrow>
      statusLabel post = spec_statusLabel post)"
  by (auto simp: statusLabel_def spec_statusLabel_def nullish_def split: option.splits)

text \<open>C9, amended, at a post with a status code, one with a status only, and one with
  neither.\<close>

theorem C9_witness:
  "status_code coded_post = Some ''FINISHED'' \<and> statusLabel coded_post = ''FINISHED'' \<and>
   status_code plain_post = None \<and> post_status plain_post = Some ''IN_PROGRESS'' \<and>
   statusLabel plain_post = ''IN_PROGRESS'' \<and>
   spec_statusLabel plain_post = ''IN_PROGRESS'' \<and>
   status_code bare_post = None \<and> post_status bare_post = None \<and>
   statusLabel bare_post = ''SCHEDULED''"
proof -
  have a: "status_code coded_post = Some ''FINISHED''" by (simp add: coded_post_def)
  have b: "status_code plain_post = None \<and> post_status plain_post = Some ''IN_PROGRESS''"
    by (simp add: plain_post_def)
  have c: "status_code bare_post = None \<and> post_status bare_post = None \<and>
           is_published bare_post = None"
    by (simp add: bare_post_def)
  show ?thesis
    using C9_first_defined [of coded_post] C9_first_defined [of plain_post]
      C9_first_defined [of bare_post] a b c
    by auto
qed

end
